theory Spec2Isabelle
  imports Main "HOL-Library.Multiset" "HOL-Library.Char_ord" "HOL-Library.List_Lexorder"
begin

section \<open>The address book's model layer (addressbook/models.py)\<close>

text \<open>
  Strings are \<open>string\<close>; a nullable column (\<open>null=True\<close>) is an \<open>option\<close>, with
  \<open>None\<close> for Python's \<open>None\<close>. The order on strings is the lexicographic order of
  the characters' codes, as Python compares strings: case-sensitive. Every exception the
  modelled code can raise is a value of \<open>error\<close>, and a computation that may raise
  returns \<open>error + 'a\<close> (\<open>Inl\<close> the exception).
\<close>

type_synonym datetime = int

datatype error = TypeError | Person_DoesNotExist | Organization_DoesNotExist

subsection \<open>Records\<close>

text \<open>Every model has the primary key \<open>id\<close>, empty until the row is stored.\<close>

record Model =
  id_fld :: "int option"

text \<open>
  \<open>DateMixin\<close>: \<open>date_added\<close> (default \<open>datetime.now\<close>, not null) and
  \<open>date_modified\<close> (null allowed, no default).
\<close>

record DateMixin = Model +
  date_added :: datetime
  date_modified :: "datetime option"

text \<open>\<open>Party\<close> has no column of its own besides the key.\<close>

type_synonym Party = Model

record Organization = DateMixin +
  name :: string

record Person = DateMixin +
  organization_id :: "int option"
  title :: string
  first_name :: string
  middle_name :: "string option"
  last_name :: "string option"

text \<open>\<open>StreetAddress(GenericRelationshipMixin, DateMixin)\<close>.\<close>

record StreetAddress = DateMixin +
  content_type :: int
  object_id :: nat
  address :: "string option"
  city :: "string option"
  state :: "string option"
  zip_fld :: "string option"
  type_fld :: "string option"

subsection \<open>Derived strings\<close>

text \<open>
  Python's \<open>sep.join(frags)\<close>: the items separated by \<open>sep\<close>; an item that is not a
  string (here: \<open>None\<close>) raises \<open>TypeError\<close>.
\<close>

fun str_join :: "string \<Rightarrow> string option list \<Rightarrow> error + string" where
  "str_join sep [] = Inr []"
| "str_join sep (None # xs) = Inl TypeError"
| "str_join sep [Some s] = Inr s"
| "str_join sep (Some s # x # xs) =
     (case str_join sep (x # xs) of
        Inl e \<Rightarrow> Inl e
      | Inr r \<Rightarrow> Inr (s @ sep @ r))"

definition StreetAddress_search_index :: "StreetAddress \<Rightarrow> error + string" where
  "StreetAddress_search_index self =
     (let frags = [address self, city self, state self, zip_fld self]
      in str_join '' '' frags)"

definition Organization_search_index :: "Organization \<Rightarrow> string" where
  "Organization_search_index self = name self"

definition Organization_sort_name :: "Organization \<Rightarrow> string" where
  "Organization_sort_name self = name self"

definition Person_search_index :: "Person \<Rightarrow> error + string" where
  "Person_search_index self =
     (let frags = [Some (first_name self), middle_name self, last_name self]
      in str_join '' '' frags)"

definition Person_sort_name :: "Person \<Rightarrow> error + string" where
  "Person_sort_name self =
     (let frags = [Some (first_name self), middle_name self, last_name self]
      in str_join '' '' frags)"

subsection \<open>Party resolution\<close>

text \<open>
  The three tables of the multi-table inheritance, each in storage order. A row of
  \<open>person_table\<close> or \<open>organization_table\<close> carries the key of its Party row in
  \<open>id_fld\<close> (the shared identity).
\<close>

record db =
  party_table :: "Party list"
  person_table :: "Person list"
  organization_table :: "Organization list"

text \<open>
  The reverse one-to-one accessors \<open>self.person\<close> and \<open>self.organization\<close>: the row
  of the child table with the party's key, or the child model's \<open>DoesNotExist\<close>.
  The key is the child table's primary key, so no second row can match.
\<close>

definition person :: "db \<Rightarrow> Party \<Rightarrow> error + Person" where
  "person d self =
     (case find (\<lambda>r. id_fld r = id_fld self) (person_table d) of
        None \<Rightarrow> Inl Person_DoesNotExist
      | Some r \<Rightarrow> Inr r)"

definition organization :: "db \<Rightarrow> Party \<Rightarrow> error + Organization" where
  "organization d self =
     (case find (\<lambda>r. id_fld r = id_fld self) (organization_table d) of
        None \<Rightarrow> Inl Organization_DoesNotExist
      | Some r \<Rightarrow> Inr r)"

text \<open>What \<open>Party.child\<close> returns: a Person or an Organization instance.\<close>

datatype entity = PersonE Person | OrganizationE Organization

text \<open>
  \<open>Party.child\<close>: \<open>try: return self.person\<close>, and only \<open>Person.DoesNotExist\<close> is
  caught, by \<open>return self.organization\<close>, whose own exception propagates.
\<close>

definition child :: "db \<Rightarrow> Party \<Rightarrow> error + entity" where
  "child d self =
     (case person d self of
        Inr r \<Rightarrow> Inr (PersonE r)
      | Inl e \<Rightarrow>
          if e = Person_DoesNotExist
          then (case organization d self of
                  Inr g \<Rightarrow> Inr (OrganizationE g)
                | Inl e' \<Rightarrow> Inl e')
          else Inl e)"

subsection \<open>Unified party listing\<close>

text \<open>
  A list comprehension \<open>[f x for x in xs]\<close> whose body may raise: the items are
  evaluated in order and the first exception ends the comprehension.
\<close>

fun map_raise :: "('a \<Rightarrow> error + 'b) \<Rightarrow> 'a list \<Rightarrow> error + 'b list" where
  "map_raise f [] = Inr []"
| "map_raise f (x # xs) =
     (case f x of
        Inl e \<Rightarrow> Inl e
      | Inr y \<Rightarrow>
          (case map_raise f xs of
             Inl e \<Rightarrow> Inl e
           | Inr ys \<Rightarrow> Inr (y # ys)))"

text \<open>
  The \<open>sort_name\<close> property of whichever instance \<open>child\<close> returned.
\<close>

fun sort_name :: "entity \<Rightarrow> error + string" where
  "sort_name (PersonE r) = Person_sort_name r"
| "sort_name (OrganizationE g) = Inr (Organization_sort_name g)"

text \<open>
  Python's \<open>sorted(xs, key=k)\<close>: the key of every item is computed first, in order
  (an exception of \<open>k\<close> propagates), then the items are sorted by their keys, stably.
  A stable sort's result is determined by the keys, so the library's stable
  \<open>sort_key\<close> stands for Python's.
\<close>

definition sorted_key :: "'a list \<Rightarrow> ('a \<Rightarrow> error + string) \<Rightarrow> error + 'a list" where
  "sorted_key xs k =
     (case map_raise k xs of
        Inl e \<Rightarrow> Inl e
      | Inr ks \<Rightarrow> Inr (map snd (sort_key fst (zip ks xs))))"

text \<open>\<open>self.all()\<close> of the Party manager: the Party rows in storage order.\<close>

definition all_parties :: "db \<Rightarrow> Party list" where
  "all_parties d = party_table d"

text \<open>
  \<open>PartyManager.children\<close>:
  \<open>sorted([p.child for p in self.all()], key=lambda k: k.sort_name)\<close>.
\<close>

definition children :: "db \<Rightarrow> error + entity list" where
  "children d =
     (case map_raise (child d) (all_parties d) of
        Inl e \<Rightarrow> Inl e
      | Inr cs \<Rightarrow> sorted_key cs sort_name)"

subsection \<open>Timestamp maintenance\<close>

text \<open>
  A table of one model: the stored rows by primary key, in insertion order.
\<close>

type_synonym 'r table = "(int \<times> 'r) list"

definition in_storage :: "'r table \<Rightarrow> int option \<Rightarrow> bool" where
  "in_storage tbl k = (case k of None \<Rightarrow> False | Some i \<Rightarrow> map_of tbl i \<noteq> None)"

text \<open>
  Modelled from the spec: the storage engine's key generator is not part of the
  repository; section 6 asks of the store only insert and update by identity. A new row
  with no key gets a positive key that no stored row has.
\<close>

definition fresh_id :: "'r table \<Rightarrow> int" where
  "fresh_id tbl = fold max (map fst tbl) 0 + 1"

text \<open>
  Modelled from the spec: \<open>Model.save\<close> of the framework, which \<open>DateMixin.save\<close>
  calls through \<open>super\<close>, is not part of the repository; section 6 names the store's
  insert and update. An instance with no key is inserted under a fresh key, which is
  written back to the instance; an instance with a key replaces the stored row of that
  key, or is inserted under it when there is none. No field but the key is changed.
\<close>

definition Model_save ::
  "'a Model_scheme \<Rightarrow> 'a Model_scheme table \<Rightarrow> 'a Model_scheme \<times> 'a Model_scheme table" where
  "Model_save self tbl =
     (case id_fld self of
        None \<Rightarrow>
          (let self' = self\<lparr>id_fld := Some (fresh_id tbl)\<rparr>
           in (self', tbl @ [(fresh_id tbl, self')]))
      | Some i \<Rightarrow>
          (self,
           if in_storage tbl (Some i)
           then map (\<lambda>(k, r). if k = i then (k, self) else (k, r)) tbl
           else tbl @ [(i, self)]))"

text \<open>Python's truth value of \<open>self.id\<close>: \<open>None\<close> and \<open>0\<close> are false.\<close>

definition truthy :: "int option \<Rightarrow> bool" where
  "truthy v = (case v of None \<Rightarrow> False | Some i \<Rightarrow> i \<noteq> 0)"

text \<open>
  Creating an instance: the field defaults of \<open>DateMixin\<close> apply, \<open>date_added\<close> is
  \<open>datetime.now()\<close> at that moment and \<open>date_modified\<close> is \<open>None\<close>. The key is
  \<open>None\<close> unless the caller passes one.
\<close>

definition DateMixin_init :: "datetime \<Rightarrow> int option \<Rightarrow> 'a \<Rightarrow> 'a DateMixin_scheme" where
  "DateMixin_init now key rest =
     \<lparr>id_fld = key, date_added = now, date_modified = None, \<dots> = rest\<rparr>"

text \<open>
  \<open>DateMixin.save\<close>, the one save path of every model with timestamps; \<open>now\<close> is
  what \<open>datetime.now()\<close> returns during the call.
\<close>

definition DateMixin_save ::
  "datetime \<Rightarrow> 'a DateMixin_scheme \<Rightarrow> 'a DateMixin_scheme table \<Rightarrow>
     'a DateMixin_scheme \<times> 'a DateMixin_scheme table" where
  "DateMixin_save now self tbl =
     (let self' =
        (if truthy (id_fld self)
         then self\<lparr>date_added := date_added self, date_modified := Some now\<rparr>
         else self)
      in Model_save self' tbl)"

text \<open>A caller saving the same instance again, once at each time of the list.\<close>

fun saves ::
  "datetime list \<Rightarrow> 'a DateMixin_scheme \<Rightarrow> 'a DateMixin_scheme table \<Rightarrow>
     'a DateMixin_scheme \<times> 'a DateMixin_scheme table" where
  "saves [] self tbl = (self, tbl)"
| "saves (t # ts) self tbl =
     (case DateMixin_save t self tbl of (self', tbl') \<Rightarrow> saves ts self' tbl')"

subsection \<open>Sample rows\<close>

text \<open>
  The rows of the listing example: the persons Alice Zed and Bob Young and the
  organization Acme, each the specialization of one Party row; further a Party row with
  no specialization, and an Organization row that shares Alice's Party row.
\<close>

definition party_row :: "int \<Rightarrow> Party" where
  "party_row i = \<lparr>id_fld = Some i\<rparr>"

definition alice :: Person where
  "alice = \<lparr>id_fld = Some 1, date_added = 10, date_modified = None,
     organization_id = None, title = [], first_name = ''Alice'',
     middle_name = Some [], last_name = Some ''Zed''\<rparr>"

definition bob :: Person where
  "bob = \<lparr>id_fld = Some 2, date_added = 10, date_modified = None,
     organization_id = None, title = [], first_name = ''Bob'',
     middle_name = Some [], last_name = Some ''Young''\<rparr>"

definition jane :: Person where
  "jane = \<lparr>id_fld = None, date_added = 10, date_modified = None,
     organization_id = None, title = [], first_name = ''Jane'',
     middle_name = None, last_name = None\<rparr>"

definition acme :: Organization where
  "acme = \<lparr>id_fld = Some 3, date_added = 10, date_modified = None, name = ''Acme''\<rparr>"

definition alice_ltd :: Organization where
  "alice_ltd = \<lparr>id_fld = Some 1, date_added = 10, date_modified = None,
     name = ''Alice Ltd''\<rparr>"

definition sample_db :: db where
  "sample_db = \<lparr>party_table = [party_row 1, party_row 2, party_row 3],
     person_table = [alice, bob], organization_table = [acme]\<rparr>"

definition orphan_db :: db where
  "orphan_db = sample_db\<lparr>party_table := party_table sample_db @ [party_row 9]\<rparr>"

definition both_db :: db where
  "both_db = sample_db\<lparr>organization_table := [acme, alice_ltd]\<rparr>"

definition main_st :: StreetAddress where
  "main_st = \<lparr>id_fld = None, date_added = 10, date_modified = None,
     content_type = 1, object_id = 1, address = Some ''1 Main St'',
     city = Some ''Springfield'', state = Some ''IL'', zip_fld = Some ''62701'',
     type_fld = Some ''main''\<rparr>"

section \<open>Lookups\<close>

lemma find_Some_holds:
  "find P xs = Some x \<Longrightarrow> x \<in> set xs \<and> P x"
  by (induction xs) (auto split: if_splits)

lemma find_None_none:
  "find P xs = None \<longleftrightarrow> (\<forall>x \<in> set xs. \<not> P x)"
  by (induction xs) auto

lemma find_row:
  assumes "\<exists>x \<in> set xs. P x"
  obtains x where "find P xs = Some x" and "x \<in> set xs" and "P x"
proof (cases "find P xs")
  case None
  with assms show ?thesis by (simp add: find_None_none)
next
  case (Some x)
  with find_Some_holds[OF Some] that show ?thesis by blast
qed

lemma child_of_person:
  "find (\<lambda>r. id_fld r = id_fld p) (person_table d) = Some r \<Longrightarrow>
   child d p = Inr (PersonE r)"
  by (simp add: child_def person_def)

lemma child_of_organization:
  "find (\<lambda>r. id_fld r = id_fld p) (person_table d) = None \<Longrightarrow>
   find (\<lambda>g. id_fld g = id_fld p) (organization_table d) = Some g \<Longrightarrow>
   child d p = Inr (OrganizationE g)"
  by (simp add: child_def person_def organization_def)

lemma child_orphan:
  "\<forall>r \<in> set (person_table d). id_fld r \<noteq> id_fld p \<Longrightarrow>
   \<forall>g \<in> set (organization_table d). id_fld g \<noteq> id_fld p \<Longrightarrow>
   child d p = Inl Organization_DoesNotExist"
  by (simp add: child_def person_def organization_def find_None_none[THEN iffD2])

lemma child_error:
  "child d p = Inl e \<Longrightarrow> e = Organization_DoesNotExist"
  by (auto simp: child_def person_def organization_def
           split: sum.splits option.splits if_splits)

lemma child_stored:
  "child d p = Inr x \<Longrightarrow>
     (\<exists>r \<in> set (person_table d). id_fld r = id_fld p \<and> x = PersonE r) \<or>
     (\<exists>g \<in> set (organization_table d). id_fld g = id_fld p \<and> x = OrganizationE g)"
  by (auto simp: child_def person_def organization_def
           split: sum.splits option.splits if_splits dest: find_Some_holds)

lemmas sample_defs =
  party_row_def alice_def bob_def acme_def alice_ltd_def sample_db_def orphan_db_def
  both_db_def

section \<open>Party resolution\<close>

text \<open>
  C1. Resolving a Party row tries the Person row with the party's key first; when there
  is none it tries the Organization row; when there is neither it fails with the
  Organization lookup's \<open>DoesNotExist\<close>, which \<open>child\<close> does not catch. The result is
  one Person, one Organization, or that error: never a default value.
\<close>

theorem child_resolves_or_fails:
  "((\<exists>r \<in> set (person_table d). id_fld r = id_fld p) \<longrightarrow>
      (\<exists>r \<in> set (person_table d). id_fld r = id_fld p \<and> child d p = Inr (PersonE r))) \<and>
   ((\<forall>r \<in> set (person_table d). id_fld r \<noteq> id_fld p) \<and>
    (\<exists>g \<in> set (organization_table d). id_fld g = id_fld p) \<longrightarrow>
      (\<exists>g \<in> set (organization_table d).
          id_fld g = id_fld p \<and> child d p = Inr (OrganizationE g))) \<and>
   ((\<forall>r \<in> set (person_table d). id_fld r \<noteq> id_fld p) \<and>
    (\<forall>g \<in> set (organization_table d). id_fld g \<noteq> id_fld p) \<longrightarrow>
      child d p = Inl Organization_DoesNotExist)"
proof (intro conjI impI)
  assume "\<exists>r \<in> set (person_table d). id_fld r = id_fld p"
  then obtain r where "find (\<lambda>r. id_fld r = id_fld p) (person_table d) = Some r"
    and "r \<in> set (person_table d)" and "id_fld r = id_fld p"
    by (rule find_row)
  then show "\<exists>r \<in> set (person_table d). id_fld r = id_fld p \<and> child d p = Inr (PersonE r)"
    using child_of_person by blast
next
  assume h: "(\<forall>r \<in> set (person_table d). id_fld r \<noteq> id_fld p) \<and>
    (\<exists>g \<in> set (organization_table d). id_fld g = id_fld p)"
  then have none: "find (\<lambda>r. id_fld r = id_fld p) (person_table d) = None"
    by (simp add: find_None_none)
  from h have "\<exists>g \<in> set (organization_table d). id_fld g = id_fld p" ..
  then obtain g where "find (\<lambda>g. id_fld g = id_fld p) (organization_table d) = Some g"
    and "g \<in> set (organization_table d)" and "id_fld g = id_fld p"
    by (rule find_row)
  then show "\<exists>g \<in> set (organization_table d).
      id_fld g = id_fld p \<and> child d p = Inr (OrganizationE g)"
    using child_of_organization[OF none] by blast
next
  assume "(\<forall>r \<in> set (person_table d). id_fld r \<noteq> id_fld p) \<and>
    (\<forall>g \<in> set (organization_table d). id_fld g \<noteq> id_fld p)"
  then show "child d p = Inl Organization_DoesNotExist"
    by (simp add: child_orphan)
qed

theorem child_resolves_or_fails_witness:
  "child orphan_db (party_row 1) = Inr (PersonE alice) \<and>
   child orphan_db (party_row 3) = Inr (OrganizationE acme) \<and>
   child orphan_db (party_row 9) = Inl Organization_DoesNotExist"
proof -
  have "child orphan_db (party_row 9) = Inl Organization_DoesNotExist"
    using child_resolves_or_fails[of orphan_db "party_row 9"]
    by (simp add: sample_defs)
  moreover have "child orphan_db (party_row 1) = Inr (PersonE alice)"
    using child_resolves_or_fails[of orphan_db "party_row 1"]
    by (simp add: sample_defs)
  moreover have "child orphan_db (party_row 3) = Inr (OrganizationE acme)"
    using child_resolves_or_fails[of orphan_db "party_row 3"]
    by (simp add: sample_defs)
  ultimately show ?thesis by simp
qed

text \<open>
  C4, as the code has it. A Party row with both a Person row and an Organization row
  resolves without any error: \<open>child\<close> returns the Person row.
\<close>

theorem child_both_returns_person:
  "(\<exists>r \<in> set (person_table d). id_fld r = id_fld p) \<and>
   (\<exists>g \<in> set (organization_table d). id_fld g = id_fld p) \<longrightarrow>
     (\<exists>r \<in> set (person_table d). id_fld r = id_fld p \<and> child d p = Inr (PersonE r)) \<and>
     (\<forall>e. child d p \<noteq> Inl e)"
proof
  assume "(\<exists>r \<in> set (person_table d). id_fld r = id_fld p) \<and>
   (\<exists>g \<in> set (organization_table d). id_fld g = id_fld p)"
  then have "\<exists>r \<in> set (person_table d). id_fld r = id_fld p" ..
  then obtain r where f: "find (\<lambda>r. id_fld r = id_fld p) (person_table d) = Some r"
    and "r \<in> set (person_table d)" and "id_fld r = id_fld p"
    by (rule find_row)
  moreover from f have "child d p = Inr (PersonE r)" by (rule child_of_person)
  ultimately show "(\<exists>r \<in> set (person_table d).
      id_fld r = id_fld p \<and> child d p = Inr (PersonE r)) \<and> (\<forall>e. child d p \<noteq> Inl e)"
    by auto
qed

theorem child_both_returns_person_witness:
  "alice \<in> set (person_table both_db) \<and> id_fld alice = id_fld (party_row 1) \<and>
   alice_ltd \<in> set (organization_table both_db) \<and>
   id_fld alice_ltd = id_fld (party_row 1) \<and>
   (\<exists>r \<in> set (person_table both_db).
      id_fld r = id_fld (party_row 1) \<and> child both_db (party_row 1) = Inr (PersonE r))"
proof -
  have rows: "alice \<in> set (person_table both_db) \<and> id_fld alice = id_fld (party_row 1) \<and>
    alice_ltd \<in> set (organization_table both_db) \<and>
    id_fld alice_ltd = id_fld (party_row 1)"
    by (simp add: sample_defs)
  then have "(\<exists>r \<in> set (person_table both_db). id_fld r = id_fld (party_row 1)) \<and>
   (\<exists>g \<in> set (organization_table both_db). id_fld g = id_fld (party_row 1))"
    by blast
  with child_both_returns_person[of both_db "party_row 1"] rows show ?thesis by blast
qed

text \<open>
  C4, as the claim states it, fails: Party row 1 of \<open>both_db\<close> has the Person row
  \<open>alice\<close> and the Organization row \<open>alice_ltd\<close>, and resolving it returns
  \<open>alice\<close>, not an error.
\<close>

theorem child_both_counterexample:
  "find (\<lambda>r. id_fld r = id_fld (party_row 1)) (person_table both_db) = Some alice \<and>
   find (\<lambda>g. id_fld g = id_fld (party_row 1)) (organization_table both_db) = Some alice_ltd \<and>
   child both_db (party_row 1) = Inr (PersonE alice)"
  by (simp add: sample_defs child_def person_def)

text \<open>
  C10. The Person lookup comes first: when it finds a row, \<open>child\<close> returns that
  Person whatever the Organization table holds, also when it holds a row of the same
  party. An Organization, or the Organization lookup's error, comes back only when the
  Person lookup raised \<open>Person.DoesNotExist\<close>.
\<close>

theorem person_lookup_first:
  "(person d p = Inr r \<longrightarrow>
      child d p = Inr (PersonE r) \<and>
      child (d\<lparr>organization_table := ot\<rparr>) p = Inr (PersonE r)) \<and>
   (child d p = Inr (OrganizationE g) \<longrightarrow> person d p = Inl Person_DoesNotExist) \<and>
   (child d p = Inl e \<longrightarrow> person d p = Inl Person_DoesNotExist)"
  by (auto simp: child_def person_def split: option.splits sum.splits if_splits)

theorem person_lookup_first_witness:
  "person both_db (party_row 1) = Inr alice \<and>
   organization both_db (party_row 1) = Inr alice_ltd \<and>
   child both_db (party_row 1) = Inr (PersonE alice) \<and>
   child (both_db\<lparr>organization_table := []\<rparr>) (party_row 1) = Inr (PersonE alice)"
proof -
  have p: "person both_db (party_row 1) = Inr alice"
    by (simp add: sample_defs person_def)
  have g: "organization both_db (party_row 1) = Inr alice_ltd"
    by (simp add: sample_defs organization_def)
  from person_lookup_first[of both_db "party_row 1" alice "[]"] p g
  show ?thesis by simp
qed

section \<open>Unified party listing\<close>

lemma map_raise_Inr:
  "map_raise f xs = Inr ys \<longleftrightarrow> list_all2 (\<lambda>x y. f x = Inr y) xs ys"
proof (induction xs arbitrary: ys)
  case Nil
  then show ?case by auto
next
  case (Cons x xs)
  show ?case
  proof (cases "f x")
    case (Inl e)
    then show ?thesis by (auto simp: list_all2_Cons1)
  next
    case fx: (Inr y)
    show ?thesis
    proof (cases "map_raise f xs")
      case (Inl e)
      with fx Cons.IH show ?thesis by (auto simp: list_all2_Cons1)
    next
      case (Inr zs)
      with fx Cons.IH show ?thesis by (auto simp: list_all2_Cons1)
    qed
  qed
qed

lemma map_raise_Inl:
  assumes "x \<in> set xs" and "f x = Inl e" and only: "\<And>y e'. f y = Inl e' \<Longrightarrow> e' = e"
  shows "map_raise f xs = Inl e"
  using assms(1)
proof (induction xs)
  case Nil
  then show ?case by simp
next
  case (Cons a xs)
  show ?case
  proof (cases "f a")
    case (Inl e')
    with only[of a e'] show ?thesis by simp
  next
    case (Inr y)
    with assms(2) have "x \<noteq> a" by auto
    with Cons.prems have "x \<in> set xs" by simp
    with Cons.IH Inr show ?thesis by simp
  qed
qed

lemma list_all2_right:
  "list_all2 P xs ys \<Longrightarrow> y \<in> set ys \<Longrightarrow> \<exists>x \<in> set xs. P x y"
  by (induction rule: list_all2_induct) auto

lemma zip_keys:
  "list_all2 (\<lambda>x k. f x = Inr k) xs ks \<Longrightarrow> \<forall>(k, x) \<in> set (zip ks xs). f x = Inr k"
  by (induction rule: list_all2_induct) auto

lemma pairs_keys:
  "\<forall>(k, x) \<in> set zs. f x = Inr k \<Longrightarrow> list_all2 (\<lambda>x k. f x = Inr k) (map snd zs) (map fst zs)"
  by (induction zs) auto

lemma sorted_key_Inr:
  assumes "list_all2 (\<lambda>x k. f x = Inr k) xs ks"
  shows "\<exists>zs ks'. sorted_key xs f = Inr zs \<and> mset zs = mset xs \<and>
           list_all2 (\<lambda>x k. f x = Inr k) zs ks' \<and> sorted ks'"
proof -
  let ?S = "sort_key fst (zip ks xs)"
  have len: "length xs = length ks" using assms by (rule list_all2_lengthD)
  have run: "sorted_key xs f = Inr (map snd ?S)"
    using assms by (simp add: sorted_key_def map_raise_Inr[THEN iffD2])
  have "mset (map snd ?S) = mset (map snd (zip ks xs))"
    by simp
  then have perm: "mset (map snd ?S) = mset xs" using len by simp
  have "\<forall>(k, x) \<in> set ?S. f x = Inr k" using zip_keys[OF assms] by simp
  then have keys: "list_all2 (\<lambda>x k. f x = Inr k) (map snd ?S) (map fst ?S)" by (rule pairs_keys)
  have "sorted (map fst ?S)" by (rule sorted_sort_key)
  with run perm keys show ?thesis by blast
qed

lemma sorted_key_Inr_only:
  "sorted_key xs f = Inr zs \<Longrightarrow> \<exists>ks. list_all2 (\<lambda>x k. f x = Inr k) xs ks"
  by (auto simp: sorted_key_def map_raise_Inr split: sum.splits)



text \<open>
  C5. When some Party row has neither a Person row nor an Organization row, the whole
  listing fails with the Organization lookup's \<open>DoesNotExist\<close>; and every element of
  a listing that is returned is a stored Person or Organization row.
\<close>

theorem orphan_fails_listing:
  "(p \<in> set (party_table d) \<and>
    (\<forall>r \<in> set (person_table d). id_fld r \<noteq> id_fld p) \<and>
    (\<forall>g \<in> set (organization_table d). id_fld g \<noteq> id_fld p) \<longrightarrow>
      children d = Inl Organization_DoesNotExist) \<and>
   (children d = Inr xs \<longrightarrow>
      (\<forall>x \<in> set xs. (\<exists>r \<in> set (person_table d). x = PersonE r) \<or>
                      (\<exists>g \<in> set (organization_table d). x = OrganizationE g)))"
proof (intro conjI impI)
  assume h: "p \<in> set (party_table d) \<and>
    (\<forall>r \<in> set (person_table d). id_fld r \<noteq> id_fld p) \<and>
    (\<forall>g \<in> set (organization_table d). id_fld g \<noteq> id_fld p)"
  then have "child d p = Inl Organization_DoesNotExist" by (simp add: child_orphan)
  with h have "map_raise (child d) (party_table d) = Inl Organization_DoesNotExist"
    by (intro map_raise_Inl[of p "party_table d" "child d"]) (auto dest: child_error)
  then show "children d = Inl Organization_DoesNotExist"
    by (simp add: children_def all_parties_def)
next
  assume run: "children d = Inr xs"
  then obtain cs where cs: "list_all2 (\<lambda>p c. child d p = Inr c) (party_table d) cs"
    and sk: "sorted_key cs sort_name = Inr xs"
    by (auto simp: children_def all_parties_def map_raise_Inr split: sum.splits)
  from sorted_key_Inr_only[OF sk] obtain ks0
    where "list_all2 (\<lambda>x k. sort_name x = Inr k) cs ks0" ..
  from sorted_key_Inr[OF this] sk have "mset xs = mset cs" by auto
  then have eq: "set xs = set cs" by (rule mset_eq_setD)
  show "\<forall>x \<in> set xs. (\<exists>r \<in> set (person_table d). x = PersonE r) \<or>
                      (\<exists>g \<in> set (organization_table d). x = OrganizationE g)"
  proof
    fix x assume "x \<in> set xs"
    with eq have "x \<in> set cs" by simp
    with cs obtain p where "child d p = Inr x"
      by (auto dest: list_all2_right)
    from child_stored[OF this] show "(\<exists>r \<in> set (person_table d). x = PersonE r) \<or>
                      (\<exists>g \<in> set (organization_table d). x = OrganizationE g)" by blast
  qed
qed


theorem orphan_fails_listing_witness:
  "party_row 9 \<in> set (party_table orphan_db) \<and>
   children orphan_db = Inl Organization_DoesNotExist"
proof -
  have "party_row 9 \<in> set (party_table orphan_db)"
    by (simp add: sample_defs)
  moreover have "children orphan_db = Inl Organization_DoesNotExist"
    using orphan_fails_listing[of "party_row 9" orphan_db]
    by (simp add: sample_defs)
  ultimately show ?thesis by simp
qed

section \<open>Timestamp maintenance\<close>

lemma fold_max_ge: "(a::int) \<le> fold max xs a"
proof (induction xs arbitrary: a)
  case Nil
  then show ?case by simp
next
  case (Cons x xs)
  have "a \<le> max x a" by simp
  also have "\<dots> \<le> fold max xs (max x a)" by (rule Cons.IH)
  finally show ?case by simp
qed

lemma fold_max_member: "(k::int) \<in> set xs \<Longrightarrow> k \<le> fold max xs a"
proof (induction xs arbitrary: a)
  case Nil
  then show ?case by simp
next
  case (Cons x xs)
  show ?case
  proof (cases "k = x")
    case True
    have "k \<le> max x a" using True by simp
    also have "\<dots> \<le> fold max xs (max x a)" by (rule fold_max_ge)
    finally show ?thesis by simp
  next
    case False
    with Cons.prems have "k \<in> set xs" by simp
    then show ?thesis using Cons.IH by simp
  qed
qed

lemma fresh_id_positive: "0 < fresh_id tbl"
  using fold_max_ge[of 0 "map fst tbl"] by (simp add: fresh_id_def)

lemma fresh_id_unused: "map_of tbl (fresh_id tbl) = None"
proof -
  have "fresh_id tbl \<notin> fst ` set tbl"
  proof
    assume "fresh_id tbl \<in> fst ` set tbl"
    then have "fresh_id tbl \<in> set (map fst tbl)" by simp
    from fold_max_member[OF this, of 0] show False by (simp add: fresh_id_def)
  qed
  then show ?thesis by (simp add: map_of_eq_None_iff)
qed

lemma map_of_replace:
  "map_of tbl i \<noteq> None \<Longrightarrow>
   map_of (map (\<lambda>(k, r). if k = i then (k, v) else (k, r)) tbl) i = Some v"
  by (induction tbl) (auto split: if_splits)

lemma Model_save_stored:
  "\<exists>k. id_fld (fst (Model_save self tbl)) = Some k \<and>
       map_of (snd (Model_save self tbl)) k = Some (fst (Model_save self tbl))"
proof (cases "id_fld self")
  case None
  then show ?thesis
    by (simp add: Model_save_def Let_def fresh_id_unused map_add_Some_iff)
next
  case (Some i)
  show ?thesis
  proof (cases "map_of tbl i")
    case None
    with Some show ?thesis
      by (simp add: Model_save_def in_storage_def map_add_Some_iff)
  next
    case (Some v)
    with \<open>id_fld self = Some i\<close> show ?thesis
      by (simp add: Model_save_def in_storage_def map_of_replace)
  qed
qed

lemma Model_save_fields:
  "date_added (fst (Model_save self tbl)) = date_added self"
  "date_modified (fst (Model_save self tbl)) = date_modified self"
  by (simp_all add: Model_save_def Let_def split: option.splits)

lemma Model_save_key:
  "id_fld self = Some i \<Longrightarrow> id_fld (fst (Model_save self tbl)) = Some i"
  "id_fld self = None \<Longrightarrow> id_fld (fst (Model_save self tbl)) = Some (fresh_id tbl)"
  by (simp_all add: Model_save_def Let_def)

lemma DateMixin_save_date_added:
  "date_added (fst (DateMixin_save now self tbl)) = date_added self"
  by (simp add: DateMixin_save_def Let_def Model_save_fields)

lemma DateMixin_save_date_modified:
  "date_modified (fst (DateMixin_save now self tbl)) =
     (if truthy (id_fld self) then Some now else date_modified self)"
  by (simp add: DateMixin_save_def Let_def Model_save_fields)

lemma DateMixin_save_key:
  "id_fld self = Some i \<Longrightarrow> id_fld (fst (DateMixin_save now self tbl)) = Some i"
  "id_fld self = None \<Longrightarrow> id_fld (fst (DateMixin_save now self tbl)) = Some (fresh_id tbl)"
  by (simp_all add: DateMixin_save_def Let_def Model_save_key)

lemma DateMixin_save_stored:
  "\<exists>k. id_fld (fst (DateMixin_save now self tbl)) = Some k \<and>
       map_of (snd (DateMixin_save now self tbl)) k = Some (fst (DateMixin_save now self tbl))"
  unfolding DateMixin_save_def Let_def by (rule Model_save_stored)

lemma saves_date_added:
  "date_added (fst (saves ts self tbl)) = date_added self"
proof (induction ts arbitrary: self tbl)
  case Nil
  then show ?case by simp
next
  case (Cons t ts)
  obtain r1 tbl1 where s: "DateMixin_save t self tbl = (r1, tbl1)" by (cases "DateMixin_save t self tbl")
  then have "date_added r1 = date_added self"
    using DateMixin_save_date_added[of t self tbl] by simp
  with s Cons.IH[of r1 tbl1] show ?case by simp
qed

lemma saves_keyed:
  assumes "id_fld self = Some i" and "i \<noteq> 0" and "ts \<noteq> []"
  shows "id_fld (fst (saves ts self tbl)) = Some i \<and>
         date_modified (fst (saves ts self tbl)) = Some (last ts) \<and>
         map_of (snd (saves ts self tbl)) i = Some (fst (saves ts self tbl))"
  using assms
proof (induction ts arbitrary: self tbl)
  case Nil
  then show ?case by simp
next
  case (Cons t ts)
  obtain r1 tbl1 where s: "DateMixin_save t self tbl = (r1, tbl1)" by (cases "DateMixin_save t self tbl")
  have key: "id_fld r1 = Some i"
    using DateMixin_save_key(1)[OF Cons.prems(1), of t tbl] s by simp
  show ?case
  proof (cases "ts = []")
    case True
    have "date_modified r1 = Some t"
      using DateMixin_save_date_modified[of t self tbl] s Cons.prems by (simp add: truthy_def)
    moreover have "map_of tbl1 i = Some r1"
      using DateMixin_save_stored[of t self tbl] s key by simp
    ultimately show ?thesis using True s key by simp
  next
    case False
    from Cons.IH[OF key Cons.prems(2) False, of tbl1] s False show ?thesis by simp
  qed
qed

text \<open>
  C3, as the code has it. An instance created with no key has \<open>date_added\<close> at its
  creation time and \<open>date_modified\<close> null; its first save stores it under a key that
  was not in storage and changes neither field; every later save of that instance sets
  \<open>date_modified\<close> to the time of that save, in the instance and in the stored row.
\<close>

theorem first_save_then_updates:
  assumes "ts \<noteq> []"
  shows "(case DateMixin_save tsave (DateMixin_init tnew None rest) tbl of (r1, tbl1) \<Rightarrow>
           \<not> in_storage tbl (id_fld r1) \<and> map_of tbl1 (fresh_id tbl) = Some r1 \<and>
           date_added r1 = tnew \<and> date_modified r1 = None \<and>
           (case saves ts r1 tbl1 of (r2, tbl2) \<Rightarrow>
              map_of tbl2 (fresh_id tbl) = Some r2 \<and>
              date_added r2 = tnew \<and> date_modified r2 = Some (last ts)))"
proof -
  let ?r0 = "DateMixin_init tnew None rest"
  obtain r1 tbl1 where s: "DateMixin_save tsave ?r0 tbl = (r1, tbl1)"
    by (cases "DateMixin_save tsave ?r0 tbl")
  have k0: "id_fld ?r0 = None" by (simp add: DateMixin_init_def)
  have key: "id_fld r1 = Some (fresh_id tbl)"
    using DateMixin_save_key(2)[OF k0, of tsave tbl] s by simp
  have new: "\<not> in_storage tbl (id_fld r1)"
    by (simp add: key in_storage_def fresh_id_unused)
  have st: "map_of tbl1 (fresh_id tbl) = Some r1"
    using DateMixin_save_stored[of tsave ?r0 tbl] s key by simp
  have da: "date_added r1 = tnew"
    using DateMixin_save_date_added[of tsave ?r0 tbl] s by (simp add: DateMixin_init_def)
  have dm: "date_modified r1 = None"
    using DateMixin_save_date_modified[of tsave ?r0 tbl] s
    by (simp add: DateMixin_init_def truthy_def)
  obtain r2 tbl2 where s2: "saves ts r1 tbl1 = (r2, tbl2)" by (cases "saves ts r1 tbl1")
  have nz: "fresh_id tbl \<noteq> 0" using fresh_id_positive[of tbl] by simp
  from saves_keyed[OF key nz assms, of tbl1] s2
  have "map_of tbl2 (fresh_id tbl) = Some r2" "date_modified r2 = Some (last ts)" by simp_all
  moreover have "date_added r2 = tnew" using saves_date_added[of ts r1 tbl1] s2 da by simp
  ultimately show ?thesis using s s2 new st da dm by simp
qed

theorem first_save_then_updates_witness:
  "[30, 40] \<noteq> ([] :: datetime list) \<and>
   fst (DateMixin_save 20 (DateMixin_init 10 None ()) []) =
     \<lparr>id_fld = Some 1, date_added = 10, date_modified = None\<rparr> \<and>
   fst (saves [30, 40] \<lparr>id_fld = Some 1, date_added = 10, date_modified = None\<rparr>
          [(1, \<lparr>id_fld = Some 1, date_added = 10, date_modified = None\<rparr>)]) =
     \<lparr>id_fld = Some 1, date_added = 10, date_modified = Some 40\<rparr>"
  using first_save_then_updates[where ts = "[30, 40]" and tsave = 20 and tnew = 10
          and rest = "()" and tbl = "[]"]
  by (simp add: DateMixin_save_def DateMixin_init_def Model_save_def Let_def truthy_def
        fresh_id_def in_storage_def)

text \<open>
  C3, as the claim states it, fails: an instance created with the key 7, which is not
  in storage, has \<open>date_modified\<close> set by its very first save.
\<close>

theorem first_save_preassigned_key_counterexample:
  "\<not> in_storage ([] :: DateMixin table) (Some 7) \<and>
   date_modified (DateMixin_init 10 (Some 7) ()) = None \<and>
   date_modified (fst (DateMixin_save 20 (DateMixin_init 10 (Some 7) ()) [])) = Some 20"
  by (simp add: in_storage_def DateMixin_save_def DateMixin_init_def truthy_def
        Model_save_def Let_def)

text \<open>
  C6, as the code has it. Whether a save counts as an update is decided by the truth
  value of the instance's key alone, whatever storage holds: with a key that is neither
  \<open>None\<close> nor 0 the save sets \<open>date_modified\<close> to the current time, also when no
  row of that key is stored; otherwise \<open>date_modified\<close> is left as it was.
\<close>

theorem save_classified_by_key:
  "(truthy (id_fld self) \<longrightarrow> date_modified (fst (DateMixin_save now self tbl)) = Some now) \<and>
   (\<not> truthy (id_fld self) \<longrightarrow>
      date_modified (fst (DateMixin_save now self tbl)) = date_modified self)"
  by (simp add: DateMixin_save_date_modified)

theorem save_classified_by_key_witness:
  "truthy (id_fld (main_st\<lparr>id_fld := Some 5\<rparr>)) \<and>
   \<not> in_storage [(1, main_st\<lparr>id_fld := Some 1\<rparr>)] (Some 5) \<and>
   date_modified (fst (DateMixin_save 200 (main_st\<lparr>id_fld := Some 5\<rparr>)
     [(1, main_st\<lparr>id_fld := Some 1\<rparr>)])) = Some 200 \<and>
   \<not> truthy (id_fld main_st) \<and>
   date_modified (fst (DateMixin_save 200 main_st [(1, main_st\<lparr>id_fld := Some 1\<rparr>)])) = None"
  using save_classified_by_key[where self = "main_st\<lparr>id_fld := Some 5\<rparr>" and now = 200
          and tbl = "[(1, main_st\<lparr>id_fld := Some 1\<rparr>)]"]
        save_classified_by_key[where self = main_st and now = 200
          and tbl = "[(1, main_st\<lparr>id_fld := Some 1\<rparr>)]"]
  by (simp add: main_st_def truthy_def in_storage_def)

text \<open>
  C6, as the claim states it, fails: the street address with the pre-assigned key 5 is
  not in storage, its first save inserts it, and that save is treated as an update:
  \<open>date_modified\<close> is set.
\<close>

theorem insert_classified_as_update_counterexample:
  "\<not> in_storage [(1, main_st\<lparr>id_fld := Some 1\<rparr>)] (Some 5) \<and>
   in_storage (snd (DateMixin_save 200 (main_st\<lparr>id_fld := Some 5\<rparr>)
     [(1, main_st\<lparr>id_fld := Some 1\<rparr>)])) (Some 5) \<and>
   date_modified (main_st\<lparr>id_fld := Some 5\<rparr>) = None \<and>
   date_modified (fst (DateMixin_save 200 (main_st\<lparr>id_fld := Some 5\<rparr>)
     [(1, main_st\<lparr>id_fld := Some 1\<rparr>)])) = Some 200"
  by (simp add: main_st_def truthy_def in_storage_def DateMixin_save_def Model_save_def
        Let_def)

text \<open>
  C7. No save changes \<open>date_added\<close>: after one save, and after any number of saves of
  the same instance, it is what it was.
\<close>

theorem date_added_never_reassigned:
  "date_added (fst (DateMixin_save now self tbl)) = date_added self \<and>
   date_added (fst (saves ts self tbl)) = date_added self"
  by (simp add: DateMixin_save_date_added saves_date_added)

theorem date_added_never_reassigned_witness:
  "date_added (fst (DateMixin_save 20 alice [])) = 10 \<and>
   date_added (fst (saves [20, 30, 40] alice [])) = 10"
  using date_added_never_reassigned[where now = 20 and self = alice and tbl = "[]"
          and ts = "[20, 30, 40]"]
  by (simp add: alice_def)

section \<open>Derived strings\<close>

lemma str_join_three:
  "str_join sep [Some a, Some b, Some c] = Inr (a @ sep @ b @ sep @ c)"
  by simp

text \<open>
  C8. A Person created with only \<open>first_name\<close> has \<open>middle_name\<close> and
  \<open>last_name\<close> null (both columns are \<open>null=True\<close> with no default), and both
  properties raise \<open>TypeError\<close> on it. With empty strings in place of the nulls they
  return the first name followed by two spaces.
\<close>

theorem person_null_names_raise:
  "middle_name jane = None \<and> last_name jane = None \<and>
   Person_sort_name jane = Inl TypeError \<and> Person_search_index jane = Inl TypeError"
  by (simp add: jane_def Person_sort_name_def Person_search_index_def)

lemma person_null_name_raises:
  "middle_name self = None \<or> last_name self = None \<Longrightarrow>
   Person_sort_name self = Inl TypeError \<and> Person_search_index self = Inl TypeError"
  by (cases "middle_name self")
     (auto simp: Person_sort_name_def Person_search_index_def)

lemma person_names_joined:
  "middle_name self = Some m \<Longrightarrow> last_name self = Some l \<Longrightarrow>
   Person_sort_name self = Inr (first_name self @ '' '' @ m @ '' '' @ l) \<and>
   Person_search_index self = Inr (first_name self @ '' '' @ m @ '' '' @ l)"
  by (simp add: Person_sort_name_def Person_search_index_def)

lemma person_empty_names:
  "Person_sort_name (jane\<lparr>middle_name := Some [], last_name := Some []\<rparr>) = Inr ''Jane  ''"
  by (simp add: jane_def Person_sort_name_def)



lemma street_address_null_field_raises:
  "address self = None \<or> city self = None \<or> state self = None \<or> zip_fld self = None \<Longrightarrow>
   StreetAddress_search_index self = Inl TypeError"
  by (cases "address self"; cases "city self"; cases "state self"; cases "zip_fld self")
     (auto simp: StreetAddress_search_index_def)

end
